theory Spec2Isabelle
  imports Main "HOL-Library.Char_ord"
begin

section \<open>The demo driver of deep\_avsr (audio\_visual/demo.py)\<close>

text \<open>
  The development embeds \<^verbatim>\<open>main\<close> of \<^verbatim>\<open>audio_visual/demo.py\<close>. The driver
  threads two pieces of state through its loops: the list \<^verbatim>\<open>rows\<close> and what it does
  to the outside (seeding, printing, loading, preprocessing, running the network, decoder
  calls, the CSV file). The second is a chronological trace of events, one for every
  call made, the call that raises included; an exception ends the run with the trace
  built so far.

  The collaborators that \<^verbatim>\<open>demo.py\<close> imports (\<^verbatim>\<open>config.args\<close>, the network
  modules, \<^verbatim>\<open>data.utils\<close>, \<^verbatim>\<open>utils.preprocessing\<close>, \<^verbatim>\<open>utils.decoders\<close>) and the
  file system are parameters of the model: \<^verbatim>\<open>args\<close> is a record of the keys that
  \<^verbatim>\<open>main\<close> reads, the functions are fields of an environment record. Each of them may
  raise, so each returns either an exception or its value. They are functions of their
  arguments: a collaborator that keeps state of its own between two calls is outside
  this model. File names are lists of characters with code points below 256.
\<close>

subsection \<open>Python values used by the driver\<close>

text \<open>
  The exceptions that \<^verbatim>\<open>main\<close> itself can raise, and \<open>Raised\<close> with the class name
  for any other exception that comes out of a collaborator.
\<close>

datatype error =
    SystemExit
  | NameError string
  | IndexError
  | KeyError
  | ValueError
  | Raised string

text \<open>Indexing a sequence: negative indices count from the end, out of range raises.\<close>

definition py_index :: "'a list \<Rightarrow> int \<Rightarrow> error + 'a" where
  "py_index xs i =
     (if 0 \<le> i \<and> i < int (length xs) then Inr (xs ! nat i)
      else if i < 0 \<and> - int (length xs) \<le> i then Inr (xs ! nat (int (length xs) + i))
      else Inl IndexError)"

text \<open>Slicing \<^verbatim>\<open>xs[lo:hi]\<close> with step 1: bounds are clamped, never an error.\<close>

definition py_clamp :: "nat \<Rightarrow> int \<Rightarrow> nat" where
  "py_clamp n i = (if i < 0 then nat (max 0 (int n + i)) else min n (nat i))"

definition py_slice :: "'a list \<Rightarrow> int option \<Rightarrow> int option \<Rightarrow> 'a list" where
  "py_slice xs lo hi =
     (let n = length xs;
          l = (case lo of None \<Rightarrow> 0 | Some i \<Rightarrow> py_clamp n i);
          h = (case hi of None \<Rightarrow> n | Some i \<Rightarrow> py_clamp n i)
      in take (h - l) (drop l xs))"

definition endswith :: "string \<Rightarrow> string \<Rightarrow> bool" where
  "endswith s suf = (length suf \<le> length s \<and> drop (length s - length suf) s = suf)"

text \<open>\<^verbatim>\<open>os.path.join\<close> on two components (posixpath).\<close>

definition path_join :: "string \<Rightarrow> string \<Rightarrow> string" where
  "path_join a b =
     (if b \<noteq> [] \<and> hd b = CHR ''/'' then b
      else if a = [] \<or> last a = CHR ''/'' then a @ b
      else a @ ''/'' @ b)"

definition bind_err :: "error + 'a \<Rightarrow> ('a \<Rightarrow> error + 'b) \<Rightarrow> error + 'b" where
  "bind_err m f = (case m of Inl e \<Rightarrow> Inl e | Inr x \<Rightarrow> f x)"

subsection \<open>Configuration, collaborators and effects\<close>

text \<open>
  \<^verbatim>\<open>args\<close> is the dictionary of \<^verbatim>\<open>config.py\<close>; the record has the keys whose values
  decide what \<^verbatim>\<open>main\<close> does. The remaining keys (network sizes, STFT and video
  parameters, normalisation constants) are only handed on to the collaborators and are
  part of the environment's functions. The numeric type of the three beam-search
  weights is a parameter.
\<close>

record 'r args =
  SEED :: int
  TRAINED_MODEL_FILE :: "string option"
  CODE_DIRECTORY :: string
  DEMO_DIRECTORY :: string
  DATA_DIRECTORY :: string
  TRAINED_FRONTEND_FILE :: string
  TRAINED_LM_FILE :: string
  USE_LM :: bool
  TEST_DEMO_NOISY :: bool
  TEST_DEMO_MODE :: string
  TEST_DEMO_DECODING :: string
  CHAR_TO_INDEX :: "string \<rightharpoonup> nat"
  INDEX_TO_CHAR :: "nat \<rightharpoonup> string"
  BEAM_WIDTH :: int
  LM_WEIGHT_ALPHA :: 'r
  LENGTH_PENALTY_BETA :: 'r
  THRESH_PROBABILITY :: 'r

text \<open>The dictionary literal \<^verbatim>\<open>beamSearchParams\<close> of lines 146-147: four fixed keys.\<close>

record 'r beamSearchParams =
  beamWidth :: int
  alpha :: 'r
  beta :: 'r
  threshProb :: 'r

text \<open>The three network classes that lines 56-71 instantiate.\<close>

datatype module = AVNet | VisualFrontend | LRS2CharLM

text \<open>
  Type parameters: \<open>'t\<close> input tensors, \<open>'l\<close> length tensors, \<open>'p\<close> the network's
  output batch, \<open>'w\<close> a loaded module. Casts and device moves of the batch
  (\<^verbatim>\<open>.float()\<close>, \<^verbatim>\<open>.int()\<close>, \<^verbatim>\<open>.to(device)\<close> in lines 125-126) keep the value and
  are not modelled.

  \<open>LoadModule m path device\<close> stands for one of the three blocks of lines 56-71:
  the constructor of \<open>m\<close>, \<^verbatim>\<open>torch.load(path, map_location=device)\<close>,
  \<^verbatim>\<open>load_state_dict\<close> and \<^verbatim>\<open>.to(device)\<close>. \<open>CsvWrite name rows\<close> stands for lines
  167-170: opening the file for writing and writing the rows in order.
\<close>

datatype ('t, 'l, 'p, 'w, 'r) event =
    NpRandomSeed int
  | TorchManualSeed int
  | Print string
  | LoadModule module string string
  | PreprocessSample string 'w
  | PrepareMainInput string string
  | CollateFn "(('t \<times> 't) \<times> 'l) list"
  | ModelCall 'w "'t option \<times> 't option"
  | CtcGreedyDecode 'p 'l nat
  | CtcSearchDecode 'p 'l "'r beamSearchParams" nat nat "'w option"
  | CsvWrite string "string list list"

text \<open>
  The outside. \<open>os_walk\<close> is the sequence of triples that \<^verbatim>\<open>os.walk\<close> yields (it
  skips what it cannot list). \<open>prepare_main_input\<close> takes the two file names; its other
  arguments are constants of the configuration and the noise, which is \<^verbatim>\<open>None\<close>
  whenever line 120 is reached. It returns the pair of inputs and their length, and so
  does \<open>collate_fn\<close>; the targets are \<^verbatim>\<open>None\<close> throughout.
\<close>

record ('t, 'l, 'p, 'w, 'r) env =
  cuda_is_available :: bool
  os_walk :: "string \<Rightarrow> (string \<times> string list \<times> string list) list"
  load_module :: "module \<Rightarrow> string \<Rightarrow> string \<Rightarrow> error + 'w"
  preprocess_sample :: "string \<Rightarrow> 'w \<Rightarrow> error + unit"
  prepare_main_input :: "string \<Rightarrow> string \<Rightarrow> error + ('t \<times> 't) \<times> 'l"
  collate_fn :: "(('t \<times> 't) \<times> 'l) list \<Rightarrow> error + ('t \<times> 't) \<times> 'l"
  model_call :: "'w \<Rightarrow> 't option \<times> 't option \<Rightarrow> error + 'p"
  ctc_greedy_decode :: "'p \<Rightarrow> 'l \<Rightarrow> nat \<Rightarrow> error + nat list \<times> nat list"
  ctc_search_decode ::
    "'p \<Rightarrow> 'l \<Rightarrow> 'r beamSearchParams \<Rightarrow> nat \<Rightarrow> nat \<Rightarrow> 'w option \<Rightarrow> error + nat list \<times> nat list"
  csv_write :: "string \<Rightarrow> string list list \<Rightarrow> error + unit"

text \<open>
  One call to the outside: the event is recorded, then the outcome of the call either
  ends the run or is handed to the rest of the program.
\<close>

definition call ::
  "'e \<Rightarrow> error + 'x \<Rightarrow> 'e list \<Rightarrow> ('e list \<Rightarrow> 'x \<Rightarrow> 'e list \<times> (error + 'y)) \<Rightarrow>
     'e list \<times> (error + 'y)" where
  "call ev outcome tr rest =
     (case outcome of Inl e \<Rightarrow> (tr @ [ev], Inl e) | Inr x \<Rightarrow> rest (tr @ [ev]) x)"

definition newline :: string where
  "newline = [CHR 0x0A]"

definition py_getitem :: "('k \<rightharpoonup> 'v) \<Rightarrow> 'k \<Rightarrow> error + 'v" where
  "py_getitem d k = (case d k of None \<Rightarrow> Inl KeyError | Some v \<Rightarrow> Inr v)"

subsection \<open>The body of the file loop\<close>

text \<open>Lines 94-106: speaker number, clip number and clip type read off the file name.\<close>

definition demo_names :: "string \<Rightarrow> error + string \<times> string \<times> string" where
  "demo_names file =
     bind_err (py_index file 7) (\<lambda>c7.
     bind_err (py_index file 13) (\<lambda>c13.
     bind_err (if c13 \<le> CHR ''9'' \<and> CHR ''0'' \<le> c13
               then Inr (py_slice file (Some 12) (Some 14))
               else bind_err (py_index file 12) (\<lambda>c12. Inr [c12])) (\<lambda>cNum.
     bind_err (py_index file (- 6)) (\<lambda>c6.
       Inr ([c7], cNum,
            if c6 = CHR ''l'' then ''jumble''
            else if c6 = CHR ''s'' then ''base''
            else py_slice file (Some (- 8)) (Some (- 4)))))))"

text \<open>
  Lines 127-133: the operation mode chooses the modalities handed to the network;
  \<open>None\<close> is the \<^verbatim>\<open>else\<close> branch of line 133.
\<close>

definition select_inputs :: "string \<Rightarrow> 't \<times> 't \<Rightarrow> ('t option \<times> 't option) option" where
  "select_inputs mode inputBatch =
     (if mode = ''AO'' then Some (Some (fst inputBatch), None)
      else if mode = ''VO'' then Some (None, Some (snd inputBatch))
      else if mode = ''AV'' then Some (Some (fst inputBatch), Some (snd inputBatch))
      else None)"

text \<open>Lines 142-152: the decoding scheme chooses the decoder.\<close>

definition decode_prediction ::
  "'r args \<Rightarrow> ('t, 'l, 'p, 'w, 'r) env \<Rightarrow> 'w option \<Rightarrow> 'p \<Rightarrow> 'l \<Rightarrow>
     ('t, 'l, 'p, 'w, 'r) event list \<Rightarrow>
     ('t, 'l, 'p, 'w, 'r) event list \<times> (error + nat list \<times> nat list)" where
  "decode_prediction a env lm outputBatch inputLenBatch tr =
     (if TEST_DEMO_DECODING a = ''greedy'' then
        (case py_getitem (CHAR_TO_INDEX a) ''<EOS>'' of
           Inl e \<Rightarrow> (tr, Inl e)
         | Inr eos \<Rightarrow>
             (tr @ [CtcGreedyDecode outputBatch inputLenBatch eos],
              ctc_greedy_decode env outputBatch inputLenBatch eos))
      else if TEST_DEMO_DECODING a = ''search'' then
        (let beamSearchParams =
               \<lparr>beamWidth = BEAM_WIDTH a, alpha = LM_WEIGHT_ALPHA a,
                beta = LENGTH_PENALTY_BETA a, threshProb = THRESH_PROBABILITY a\<rparr>
         in case py_getitem (CHAR_TO_INDEX a) '' '' of
              Inl e \<Rightarrow> (tr, Inl e)
            | Inr space \<Rightarrow>
                (case py_getitem (CHAR_TO_INDEX a) ''<EOS>'' of
                   Inl e \<Rightarrow> (tr, Inl e)
                 | Inr eos \<Rightarrow>
                     (tr @ [CtcSearchDecode outputBatch inputLenBatch beamSearchParams space eos lm],
                      ctc_search_decode env outputBatch inputLenBatch beamSearchParams space eos lm)))
      else (tr @ [Print ''Invalid Decode Scheme''], Inl SystemExit))"

text \<open>
  Lines 155-156: drop the last index of the prediction batch, map the others to
  characters and join them.
\<close>

fun join_chars :: "(nat \<rightharpoonup> string) \<Rightarrow> nat list \<Rightarrow> error + string" where
  "join_chars m [] = Inr []"
| "join_chars m (ix # ixs) =
     bind_err (py_getitem m ix) (\<lambda>c. bind_err (join_chars m ixs) (\<lambda>cs. Inr (c @ cs)))"

definition prediction_string :: "(nat \<rightharpoonup> string) \<Rightarrow> nat list \<Rightarrow> error + string" where
  "prediction_string m predictionBatch =
     join_chars m (py_slice (py_slice predictionBatch None None) None (Some (- 1)))"

text \<open>\<^verbatim>\<open>os.path.join(root, file[:-4])\<close> of lines 109, 116 and 117.\<close>

definition sample_file :: "string \<Rightarrow> string \<Rightarrow> string" where
  "sample_file root file = path_join root (py_slice file None (Some (- 4)))"

text \<open>Lines 158-163: the four prints and the new row.\<close>

definition record_prediction ::
  "'r args \<Rightarrow> string \<Rightarrow> string \<times> string \<times> string \<Rightarrow> string list list \<Rightarrow>
     ('t, 'l, 'p, 'w, 'r) event list \<Rightarrow> nat list \<Rightarrow>
     ('t, 'l, 'p, 'w, 'r) event list \<times> (error + string list list)" where
  "record_prediction a file names rows tr predictionBatch =
     (case names of (sNum, cNum, cType) \<Rightarrow>
        (case prediction_string (INDEX_TO_CHAR a) predictionBatch of
           Inl e \<Rightarrow> (tr, Inl e)
         | Inr pred \<Rightarrow>
            (tr @ [Print (''File: '' @ file),
                   Print (''Speaker: '' @ sNum @ ''   Clip: '' @ cNum
                          @ ''   Clip Type: '' @ cType),
                   Print (''Prediction: '' @ pred),
                   Print newline],
             Inr (rows @ [[sNum, cNum, cType, pred]]))))"

text \<open>
  Lines 92-164: one iteration of the inner loop. A file that does not end in
  \<^verbatim>\<open>.mp4\<close> is passed over.
\<close>

definition process_file ::
  "'r args \<Rightarrow> ('t, 'l, 'p, 'w, 'r) env \<Rightarrow> 'w \<Rightarrow> 'w \<Rightarrow> 'w option \<Rightarrow> string \<Rightarrow> string \<Rightarrow>
     ('t, 'l, 'p, 'w, 'r) event list \<Rightarrow> string list list \<Rightarrow>
     ('t, 'l, 'p, 'w, 'r) event list \<times> (error + string list list)" where
  "process_file a env model vf lm root file tr rows =
     (if \<not> endswith file ''.mp4'' then (tr, Inr rows)
      else case demo_names file of
        Inl e \<Rightarrow> (tr, Inl e)
      | Inr names \<Rightarrow>
         (let sampleFile = sample_file root file;
              audioFile = sample_file root file @ ''.wav'';
              visualFeaturesFile = sample_file root file @ ''.npy''
          in
          call (PreprocessSample sampleFile vf) (preprocess_sample env sampleFile vf) tr
            (\<lambda>tr1 u.
          call (PrepareMainInput audioFile visualFeaturesFile)
               (prepare_main_input env audioFile visualFeaturesFile) tr1
            (\<lambda>tr2 sample.
          call (CollateFn [sample]) (collate_fn env [sample]) tr2
            (\<lambda>tr3 (inputBatch, inputLenBatch).
          case select_inputs (TEST_DEMO_MODE a) inputBatch of
            None \<Rightarrow> (tr3 @ [Print ''Invalid Operation Mode.''], Inl SystemExit)
          | Some inputs \<Rightarrow>
          call (ModelCall model inputs) (model_call env model inputs) tr3
            (\<lambda>tr4 outputBatch.
          case decode_prediction a env lm outputBatch inputLenBatch tr4 of
            (tr5, Inl e) \<Rightarrow> (tr5, Inl e)
          | (tr5, Inr (predictionBatch, predictionLenBatch)) \<Rightarrow>
              record_prediction a file names rows tr5 predictionBatch))))))"

subsection \<open>The loops and \<^verbatim>\<open>main\<close>\<close>

fun for_each ::
  "('x \<Rightarrow> 'e list \<Rightarrow> 's \<Rightarrow> 'e list \<times> (error + 's)) \<Rightarrow> 'x list \<Rightarrow> 'e list \<Rightarrow> 's \<Rightarrow>
     'e list \<times> (error + 's)" where
  "for_each body [] tr s = (tr, Inr s)"
| "for_each body (x # xs) tr s =
     (case body x tr s of
        (tr', Inl e) \<Rightarrow> (tr', Inl e)
      | (tr', Inr s') \<Rightarrow> for_each body xs tr' s')"

text \<open>Lines 90-164: \<^verbatim>\<open>os.walk\<close> yields the directories, the inner loop their files.\<close>

definition walk_demo ::
  "'r args \<Rightarrow> ('t, 'l, 'p, 'w, 'r) env \<Rightarrow> 'w \<Rightarrow> 'w \<Rightarrow> 'w option \<Rightarrow>
     ('t, 'l, 'p, 'w, 'r) event list \<Rightarrow> string list list \<Rightarrow>
     ('t, 'l, 'p, 'w, 'r) event list \<times> (error + string list list)" where
  "walk_demo a env model vf lm tr rows =
     for_each (\<lambda>(root, dirs, files). for_each (process_file a env model vf lm root) files)
       (os_walk env (DEMO_DIRECTORY a)) tr rows"

text \<open>
  Lines 41-178. \<^verbatim>\<open>np.random.seed\<close> takes a seed from 0 to 2**32 - 1 and raises
  ValueError for any other integer; \<^verbatim>\<open>torch.manual_seed\<close> takes every seed of that
  range. The language model is loaded also when it is not used (lines 69-73). Line 78
  names \<^verbatim>\<open>wavfile\<close>, which no import of lines 26-37 binds.
\<close>

definition main ::
  "'r args \<Rightarrow> ('t, 'l, 'p, 'w, 'r) env \<Rightarrow> ('t, 'l, 'p, 'w, 'r) event list \<times> (error + unit)" where
  "main a env =
     (if SEED a < 0 \<or> 2 ^ 32 \<le> SEED a then ([NpRandomSeed (SEED a)], Inl ValueError)
      else
        (let seeded = [NpRandomSeed (SEED a), TorchManualSeed (SEED a)];
             device = (if cuda_is_available env then ''cuda'' else ''cpu'')
         in case TRAINED_MODEL_FILE a of
              None \<Rightarrow>
                (seeded @ [Print (newline @ ''Path to trained model file not specified.'' @ newline)],
                 Inr ())
            | Some modelFile \<Rightarrow>
               call (LoadModule AVNet (CODE_DIRECTORY a @ modelFile) device)
                    (load_module env AVNet (CODE_DIRECTORY a @ modelFile) device)
                    (seeded @ [Print (newline @ ''Trained Model File: '' @ modelFile),
                               Print (newline @ ''Demo Directory: '' @ DEMO_DIRECTORY a)])
                 (\<lambda>tr1 model.
               call (LoadModule VisualFrontend (TRAINED_FRONTEND_FILE a) device)
                    (load_module env VisualFrontend (TRAINED_FRONTEND_FILE a) device) tr1
                 (\<lambda>tr2 vf.
               call (LoadModule LRS2CharLM (TRAINED_LM_FILE a) device)
                    (load_module env LRS2CharLM (TRAINED_LM_FILE a) device) tr2
                 (\<lambda>tr3 loaded_lm.
               let lm = (if \<not> USE_LM a then None else Some loaded_lm)
               in if TEST_DEMO_NOISY a then (tr3, Inl (NameError ''wavfile''))
                  else
                    (case walk_demo a env model vf lm
                            (tr3 @ [Print (newline @ newline @ ''Running Demo .... '' @ newline),
                                    Print (TEST_DEMO_MODE a)]) [] of
                       (tr4, Inl e) \<Rightarrow> (tr4, Inl e)
                     | (tr4, Inr rows) \<Rightarrow>
                         call (CsvWrite ''predictions-noise-10db.csv'' rows)
                              (csv_write env ''predictions-noise-10db.csv'' rows)
                              (tr4 @ [Print (''Demo Completed.'' @ newline)])
                           (\<lambda>tr5 u. (tr5, Inr ()))))))))"

subsection \<open>Classifying effects\<close>

fun is_decode :: "('t, 'l, 'p, 'w, 'r) event \<Rightarrow> bool" where
  "is_decode (CtcGreedyDecode p l e) = True"
| "is_decode (CtcSearchDecode p l b s e m) = True"
| "is_decode _ = False"

fun is_preprocess :: "('t, 'l, 'p, 'w, 'r) event \<Rightarrow> bool" where
  "is_preprocess (PreprocessSample f v) = True"
| "is_preprocess _ = False"

fun is_csv_write :: "('t, 'l, 'p, 'w, 'r) event \<Rightarrow> bool" where
  "is_csv_write (CsvWrite f r) = True"
| "is_csv_write _ = False"

text \<open>What a collate call is given, and the two batches a decoder call is given.\<close>

fun single_batch :: "('t, 'l, 'p, 'w, 'r) event \<Rightarrow> bool" where
  "single_batch (CollateFn samples) = (length samples = 1)"
| "single_batch _ = True"

fun decoder_input :: "('t, 'l, 'p, 'w, 'r) event \<Rightarrow> ('p \<times> 'l) option" where
  "decoder_input (CtcGreedyDecode p l e) = Some (p, l)"
| "decoder_input (CtcSearchDecode p l b s e m) = Some (p, l)"
| "decoder_input _ = None"

subsection \<open>A concrete configuration and environment\<close>

definition demo_args :: "int args" where
  "demo_args =
     \<lparr>SEED = 19220297, TRAINED_MODEL_FILE = Some ''/final/models/av.pt'',
      CODE_DIRECTORY = ''/code'', DEMO_DIRECTORY = ''/demo'', DATA_DIRECTORY = ''/data'',
      TRAINED_FRONTEND_FILE = ''/code/vf.pt'', TRAINED_LM_FILE = ''/code/lm.pt'',
      USE_LM = True, TEST_DEMO_NOISY = False, TEST_DEMO_MODE = ''AV'',
      TEST_DEMO_DECODING = ''greedy'',
      CHAR_TO_INDEX = ['' '' \<mapsto> 1, ''A'' \<mapsto> 2, ''B'' \<mapsto> 3, ''<EOS>'' \<mapsto> 4],
      INDEX_TO_CHAR = [1 \<mapsto> '' '', 2 \<mapsto> ''A'', 3 \<mapsto> ''B'', 4 \<mapsto> ''<EOS>''],
      BEAM_WIDTH = 5, LM_WEIGHT_ALPHA = 1, LENGTH_PENALTY_BETA = 2, THRESH_PROBABILITY = 0\<rparr>"

definition demo_env :: "(string, nat, string, string, int) env" where
  "demo_env =
     \<lparr>cuda_is_available = False,
      os_walk = (\<lambda>d. [(d, [], [''notes.txt'', ''speaker1_clip7_base.mp4''])]),
      load_module = (\<lambda>m path device. Inr path),
      preprocess_sample = (\<lambda>sampleFile vf. Inr ()),
      prepare_main_input = (\<lambda>audio video. Inr ((audio, video), 3)),
      collate_fn = (\<lambda>samples. case samples of [] \<Rightarrow> Inl (Raised ''RuntimeError'')
                                | s # others \<Rightarrow> Inr s),
      model_call = (\<lambda>model inputs. Inr ''posteriors''),
      ctc_greedy_decode = (\<lambda>p l eos. Inr ([2, 3, eos], [3])),
      ctc_search_decode = (\<lambda>p l b space eos lm. Inr ([3, space, 2, eos], [4])),
      csv_write = (\<lambda>name rows. Inr ())\<rparr>"

section \<open>Properties\<close>

subsection \<open>Runs that never reach the loop\<close>

text \<open>
  Claim C10, as amended. When \<^verbatim>\<open>args["TRAINED_MODEL_FILE"]\<close> is \<^verbatim>\<open>None\<close>, nothing is
  loaded, preprocessed or decoded and no CSV file is written. With a seed from 0 to
  2**32 - 1 the run seeds the two generators, prints that the path to the trained model
  file is not specified and returns normally, and that is all it does; with any other
  seed \<^verbatim>\<open>np.random.seed\<close> raises ValueError in line 43 and nothing is printed.
\<close>

theorem main_without_model_file:
  assumes "TRAINED_MODEL_FILE a = None"
  shows "main a env =
           (if 0 \<le> SEED a \<and> SEED a < 2 ^ 32
            then ([NpRandomSeed (SEED a), TorchManualSeed (SEED a),
                   Print (newline @ ''Path to trained model file not specified.'' @ newline)],
                  Inr ())
            else ([NpRandomSeed (SEED a)], Inl ValueError))
         \<and> (\<forall>e \<in> set (fst (main a env)).
              \<not> is_preprocess e \<and> \<not> is_decode e \<and> \<not> is_csv_write e)"
  using assms by (simp add: main_def)

theorem main_without_model_file_witness:
  "TRAINED_MODEL_FILE (demo_args\<lparr>TRAINED_MODEL_FILE := None\<rparr>) = None
   \<and> main (demo_args\<lparr>TRAINED_MODEL_FILE := None\<rparr>) demo_env =
       ([NpRandomSeed 19220297, TorchManualSeed 19220297,
         Print (newline @ ''Path to trained model file not specified.'' @ newline)],
        Inr ())"
  using main_without_model_file [of "demo_args\<lparr>TRAINED_MODEL_FILE := None\<rparr>" demo_env]
  by (simp add: demo_args_def)

text \<open>
  The claim as it was stated (the message is printed, the run returns normally and
  leaves all external state unchanged) fails twice: with the seed -1 the run raises
  ValueError before it prints, and with a seed in range the two generators are seeded.
\<close>

theorem main_without_model_file_counterexample:
  "main (demo_args\<lparr>SEED := - 1, TRAINED_MODEL_FILE := None\<rparr>) demo_env =
     ([NpRandomSeed (- 1)], Inl ValueError)
   \<and> NpRandomSeed 19220297
       \<in> set (fst (main (demo_args\<lparr>TRAINED_MODEL_FILE := None\<rparr>) demo_env))"
  by (simp add: main_def demo_args_def)

text \<open>
  Claim C8. With a trained model file specified and \<^verbatim>\<open>args["TEST_DEMO_NOISY"]\<close> true,
  no run preprocesses or decodes a file or writes the CSV file, and none returns
  normally. When line 78 is reached, that is when the seed is in range and the three
  modules load, \<^verbatim>\<open>main\<close> stops there with a NameError for \<^verbatim>\<open>wavfile\<close>: the run is
  the seeding, two prints and the three loads.
\<close>

theorem main_noisy_name_error:
  assumes "TRAINED_MODEL_FILE a = Some modelFile" and "TEST_DEMO_NOISY a"
  shows "(\<forall>e \<in> set (fst (main a env)).
            \<not> is_preprocess e \<and> \<not> is_decode e \<and> \<not> is_csv_write e)
         \<and> snd (main a env) \<noteq> Inr ()
         \<and> (0 \<le> SEED a \<and> SEED a < 2 ^ 32
              \<and> load_module env AVNet (CODE_DIRECTORY a @ modelFile)
                   (if cuda_is_available env then ''cuda'' else ''cpu'') = Inr model
              \<and> load_module env VisualFrontend (TRAINED_FRONTEND_FILE a)
                   (if cuda_is_available env then ''cuda'' else ''cpu'') = Inr vf
              \<and> load_module env LRS2CharLM (TRAINED_LM_FILE a)
                   (if cuda_is_available env then ''cuda'' else ''cpu'') = Inr lm
            \<longrightarrow> main a env =
                  ([NpRandomSeed (SEED a), TorchManualSeed (SEED a),
                    Print (newline @ ''Trained Model File: '' @ modelFile),
                    Print (newline @ ''Demo Directory: '' @ DEMO_DIRECTORY a),
                    LoadModule AVNet (CODE_DIRECTORY a @ modelFile)
                      (if cuda_is_available env then ''cuda'' else ''cpu''),
                    LoadModule VisualFrontend (TRAINED_FRONTEND_FILE a)
                      (if cuda_is_available env then ''cuda'' else ''cpu''),
                    LoadModule LRS2CharLM (TRAINED_LM_FILE a)
                      (if cuda_is_available env then ''cuda'' else ''cpu'')],
                   Inl (NameError ''wavfile'')))"
  using assms by (auto simp add: main_def Let_def call_def split: sum.splits)

theorem main_noisy_name_error_witness:
  "TRAINED_MODEL_FILE (demo_args\<lparr>TEST_DEMO_NOISY := True\<rparr>) = Some ''/final/models/av.pt''
   \<and> TEST_DEMO_NOISY (demo_args\<lparr>TEST_DEMO_NOISY := True\<rparr>)
   \<and> 0 \<le> SEED (demo_args\<lparr>TEST_DEMO_NOISY := True\<rparr>)
   \<and> SEED (demo_args\<lparr>TEST_DEMO_NOISY := True\<rparr>) < 2 ^ 32
   \<and> main (demo_args\<lparr>TEST_DEMO_NOISY := True\<rparr>) demo_env =
       ([NpRandomSeed 19220297, TorchManualSeed 19220297,
         Print (newline @ ''Trained Model File: /final/models/av.pt''),
         Print (newline @ ''Demo Directory: /demo''),
         LoadModule AVNet ''/code/final/models/av.pt'' ''cpu'',
         LoadModule VisualFrontend ''/code/vf.pt'' ''cpu'',
         LoadModule LRS2CharLM ''/code/lm.pt'' ''cpu''],
        Inl (NameError ''wavfile''))"
  using main_noisy_name_error
          [of "demo_args\<lparr>TEST_DEMO_NOISY := True\<rparr>" "''/final/models/av.pt''" demo_env
              "''/code/final/models/av.pt''" "''/code/vf.pt''" "''/code/lm.pt''"]
  by (simp add: demo_args_def demo_env_def)

subsection \<open>File names\<close>

lemma demo_names_short:
  assumes "length file < 14"
  shows "demo_names file = Inl IndexError"
proof (cases "length file \<le> 7")
  case True
  then have "py_index file 7 = Inl IndexError" by (simp add: py_index_def)
  then show ?thesis by (simp add: demo_names_def bind_err_def)
next
  case False
  then have "py_index file 7 = Inr (file ! 7)" by (simp add: py_index_def)
  moreover from assms have "py_index file 13 = Inl IndexError" by (simp add: py_index_def)
  ultimately show ?thesis by (simp add: demo_names_def bind_err_def)
qed

lemma slice_two:
  assumes "14 \<le> length file"
  shows "py_slice file (Some 12) (Some 14) = [file ! 12, file ! 13]"
proof -
  have "drop 12 file = file ! 12 # drop 13 file"
    using assms Cons_nth_drop_Suc [where i = 12 and xs = "file"] by simp
  moreover have "drop 13 file = file ! 13 # drop 14 file"
    using assms Cons_nth_drop_Suc [where i = 13 and xs = "file"] by simp
  ultimately show ?thesis
    using assms by (simp add: py_slice_def py_clamp_def Let_def)
qed

lemma demo_names_long:
  assumes "14 \<le> length file"
  shows "demo_names file =
           Inr ([file ! 7],
                if CHR ''0'' \<le> file ! 13 \<and> file ! 13 \<le> CHR ''9''
                then [file ! 12, file ! 13] else [file ! 12],
                if file ! (length file - 6) = CHR ''l'' then ''jumble''
                else if file ! (length file - 6) = CHR ''s'' then ''base''
                else take 4 (drop (length file - 8) file))"
proof -
  have i7: "py_index file 7 = Inr (file ! 7)" using assms by (simp add: py_index_def)
  have i13: "py_index file 13 = Inr (file ! 13)" using assms by (simp add: py_index_def)
  have i12: "py_index file 12 = Inr (file ! 12)" using assms by (simp add: py_index_def)
  have i6: "py_index file (- 6) = Inr (file ! (length file - 6))"
    using assms by (simp add: py_index_def nat_diff_distrib' nat_add_distrib)
  have s8: "py_slice file (Some (- 8)) (Some (- 4)) = take 4 (drop (length file - 8) file)"
    using assms by (simp add: py_slice_def py_clamp_def Let_def nat_diff_distrib')
  show ?thesis
    by (simp add: demo_names_def bind_err_def i7 i13 i12 i6 s8 slice_two [OF assms])
qed

text \<open>
  Claim C9. For a file whose name ends in \<^verbatim>\<open>.mp4\<close> the iteration starts by reading
  the characters 7, 13 and -6 of the name (and 12, or the slices 12:14 and -8:-4, as
  these decide). A name shorter than 14 characters ends the iteration with IndexError
  and the trace as it was: nothing is preprocessed or decoded for it. For a longer name
  the three names are the ones below, and they are what the iteration puts into the row.
\<close>

theorem mp4_name_indexing:
  assumes "endswith file ''.mp4''"
  shows "(length file < 14 \<longrightarrow>
            process_file a env model vf lm root file tr rows = (tr, Inl IndexError))
         \<and> (14 \<le> length file \<longrightarrow>
            demo_names file =
              Inr ([file ! 7],
                   if CHR ''0'' \<le> file ! 13 \<and> file ! 13 \<le> CHR ''9''
                   then [file ! 12, file ! 13] else [file ! 12],
                   if file ! (length file - 6) = CHR ''l'' then ''jumble''
                   else if file ! (length file - 6) = CHR ''s'' then ''base''
                   else take 4 (drop (length file - 8) file)))
         \<and> (\<forall>sNum cNum cType rows'.
               demo_names file = Inr (sNum, cNum, cType)
               \<and> snd (process_file a env model vf lm root file tr rows) = Inr rows'
               \<longrightarrow> (\<exists>pred. rows' = rows @ [[sNum, cNum, cType, pred]]))"
proof (intro conjI impI allI)
  assume "length file < 14"
  then show "process_file a env model vf lm root file tr rows = (tr, Inl IndexError)"
    using assms by (simp add: process_file_def demo_names_short)
next
  assume "14 \<le> length file"
  then show "demo_names file =
              Inr ([file ! 7],
                   if CHR ''0'' \<le> file ! 13 \<and> file ! 13 \<le> CHR ''9''
                   then [file ! 12, file ! 13] else [file ! 12],
                   if file ! (length file - 6) = CHR ''l'' then ''jumble''
                   else if file ! (length file - 6) = CHR ''s'' then ''base''
                   else take 4 (drop (length file - 8) file))"
    by (rule demo_names_long)
next
  fix sNum cNum cType rows'
  assume "demo_names file = Inr (sNum, cNum, cType)
          \<and> snd (process_file a env model vf lm root file tr rows) = Inr rows'"
  then show "\<exists>pred. rows' = rows @ [[sNum, cNum, cType, pred]]"
    using assms
    by (auto simp add: process_file_def call_def record_prediction_def Let_def
        split: sum.splits option.splits prod.splits)
qed

theorem mp4_name_indexing_witness:
  "endswith ''a.mp4'' ''.mp4'' \<and> length ''a.mp4'' < 14
   \<and> process_file demo_args demo_env ''m'' ''v'' None ''/demo'' ''a.mp4'' [] [] =
       ([], Inl IndexError)
   \<and> endswith ''speaker1_clip7_base.mp4'' ''.mp4'' \<and> 14 \<le> length ''speaker1_clip7_base.mp4''
   \<and> demo_names ''speaker1_clip7_base.mp4'' = Inr (''1'', ''p7'', ''base'')"
  using mp4_name_indexing [of "''a.mp4''" demo_args demo_env "''m''" "''v''" None "''/demo''" "[]" "[]"]
        mp4_name_indexing [of "''speaker1_clip7_base.mp4''" demo_args demo_env "''m''" "''v''"
                              None "''/demo''" "[]" "[]"]
  by (simp add: endswith_def)

subsection \<open>The decoding step\<close>

text \<open>An iteration whose calls up to the network succeed continues with lines 142-163.\<close>

lemma process_file_decode_step:
  assumes "endswith file ''.mp4''"
    and "demo_names file = Inr names"
    and "preprocess_sample env (sample_file root file) vf = Inr u"
    and "prepare_main_input env (sample_file root file @ ''.wav'')
           (sample_file root file @ ''.npy'') = Inr sample"
    and "collate_fn env [sample] = Inr (inputBatch, inputLenBatch)"
    and "select_inputs (TEST_DEMO_MODE a) inputBatch = Some inputs"
    and "model_call env model inputs = Inr outputBatch"
  shows "process_file a env model vf lm root file tr rows =
           (case decode_prediction a env lm outputBatch inputLenBatch
                   (tr @ [PreprocessSample (sample_file root file) vf,
                          PrepareMainInput (sample_file root file @ ''.wav'')
                            (sample_file root file @ ''.npy''),
                          CollateFn [sample],
                          ModelCall model inputs]) of
              (tr5, Inl e) \<Rightarrow> (tr5, Inl e)
            | (tr5, Inr (predictionBatch, predictionLenBatch)) \<Rightarrow>
                record_prediction a file names rows tr5 predictionBatch)"
  using assms by (simp add: process_file_def call_def Let_def)

text \<open>
  Claim C2. For a file that reaches line 142: with the scheme \<^verbatim>\<open>greedy\<close> the one call
  that follows is \<^verbatim>\<open>ctc_greedy_decode\<close> on the network's output for this file, the
  length batch that \<^verbatim>\<open>collate_fn\<close> returned, and the index of \<^verbatim>\<open><EOS>\<close>; with the
  scheme \<^verbatim>\<open>search\<close> it is \<^verbatim>\<open>ctc_search_decode\<close> on the same two batches, the
  dictionary of \<^verbatim>\<open>beamWidth\<close>, \<^verbatim>\<open>alpha\<close>, \<^verbatim>\<open>beta\<close> and \<^verbatim>\<open>threshProb\<close> taken from the
  configuration, the indices of the space and of \<^verbatim>\<open><EOS>\<close>, and the language model
  or \<^verbatim>\<open>None\<close>. Either call returns a pair, the labels and their lengths, or raises;
  the labels go on to lines 155-163.
\<close>

theorem decoder_arguments:
  assumes "endswith file ''.mp4''"
    and "demo_names file = Inr names"
    and "preprocess_sample env (sample_file root file) vf = Inr u"
    and "prepare_main_input env (sample_file root file @ ''.wav'')
           (sample_file root file @ ''.npy'') = Inr sample"
    and "collate_fn env [sample] = Inr (inputBatch, inputLenBatch)"
    and "select_inputs (TEST_DEMO_MODE a) inputBatch = Some inputs"
    and "model_call env model inputs = Inr outputBatch"
  shows "(let before = tr @ [PreprocessSample (sample_file root file) vf,
                             PrepareMainInput (sample_file root file @ ''.wav'')
                               (sample_file root file @ ''.npy''),
                             CollateFn [sample],
                             ModelCall model inputs];
              params = \<lparr>beamWidth = BEAM_WIDTH a, alpha = LM_WEIGHT_ALPHA a,
                        beta = LENGTH_PENALTY_BETA a, threshProb = THRESH_PROBABILITY a\<rparr>
          in (TEST_DEMO_DECODING a = ''greedy'' \<and> CHAR_TO_INDEX a ''<EOS>'' = Some eos \<longrightarrow>
                process_file a env model vf lm root file tr rows =
                  (case ctc_greedy_decode env outputBatch inputLenBatch eos of
                     Inl e \<Rightarrow> (before @ [CtcGreedyDecode outputBatch inputLenBatch eos], Inl e)
                   | Inr (labels, len) \<Rightarrow>
                       record_prediction a file names rows
                         (before @ [CtcGreedyDecode outputBatch inputLenBatch eos]) labels))
           \<and> (TEST_DEMO_DECODING a = ''search'' \<and> CHAR_TO_INDEX a '' '' = Some space
                \<and> CHAR_TO_INDEX a ''<EOS>'' = Some eos \<longrightarrow>
                process_file a env model vf lm root file tr rows =
                  (case ctc_search_decode env outputBatch inputLenBatch params space eos lm of
                     Inl e \<Rightarrow>
                       (before @ [CtcSearchDecode outputBatch inputLenBatch params space eos lm],
                        Inl e)
                   | Inr (labels, len) \<Rightarrow>
                       record_prediction a file names rows
                         (before @ [CtcSearchDecode outputBatch inputLenBatch params space eos lm])
                         labels)))"
  unfolding process_file_decode_step [OF assms]
  by (simp add: decode_prediction_def py_getitem_def Let_def split: sum.splits)

text \<open>The file of the concrete environment, step by step.\<close>

lemma demo_sample_file:
  "sample_file ''/demo'' ''speaker1_clip7_base.mp4'' = ''/demo/speaker1_clip7_base''"
  by (simp add: sample_file_def path_join_def py_slice_def py_clamp_def)

lemma demo_file_names: "demo_names ''speaker1_clip7_base.mp4'' = Inr (''1'', ''p7'', ''base'')"
  using demo_names_long [of "''speaker1_clip7_base.mp4''"] by simp

theorem decoder_arguments_witness:
  "process_file demo_args demo_env ''m'' ''v'' None ''/demo'' ''speaker1_clip7_base.mp4'' [] [] =
     record_prediction demo_args ''speaker1_clip7_base.mp4'' (''1'', ''p7'', ''base'') []
       [PreprocessSample ''/demo/speaker1_clip7_base'' ''v'',
        PrepareMainInput ''/demo/speaker1_clip7_base.wav'' ''/demo/speaker1_clip7_base.npy'',
        CollateFn [((''/demo/speaker1_clip7_base.wav'', ''/demo/speaker1_clip7_base.npy''), 3)],
        ModelCall ''m'' (Some ''/demo/speaker1_clip7_base.wav'',
                         Some ''/demo/speaker1_clip7_base.npy''),
        CtcGreedyDecode ''posteriors'' 3 4]
       [2, 3, 4]
   \<and> process_file (demo_args\<lparr>TEST_DEMO_DECODING := ''search''\<rparr>) demo_env ''m'' ''v''
         (Some ''lm'') ''/demo'' ''speaker1_clip7_base.mp4'' [] [] =
     record_prediction (demo_args\<lparr>TEST_DEMO_DECODING := ''search''\<rparr>)
       ''speaker1_clip7_base.mp4'' (''1'', ''p7'', ''base'') []
       [PreprocessSample ''/demo/speaker1_clip7_base'' ''v'',
        PrepareMainInput ''/demo/speaker1_clip7_base.wav'' ''/demo/speaker1_clip7_base.npy'',
        CollateFn [((''/demo/speaker1_clip7_base.wav'', ''/demo/speaker1_clip7_base.npy''), 3)],
        ModelCall ''m'' (Some ''/demo/speaker1_clip7_base.wav'',
                         Some ''/demo/speaker1_clip7_base.npy''),
        CtcSearchDecode ''posteriors'' 3
          \<lparr>beamWidth = 5, alpha = 1, beta = 2, threshProb = 0\<rparr> 1 4 (Some ''lm'')]
       [3, 1, 2, 4]"
proof -
  let ?file = "''speaker1_clip7_base.mp4''"
  let ?sample = "((''/demo/speaker1_clip7_base.wav'', ''/demo/speaker1_clip7_base.npy''), 3::nat)"
  let ?inputs = "(Some ''/demo/speaker1_clip7_base.wav'', Some ''/demo/speaker1_clip7_base.npy'')"
  have h1: "endswith ?file ''.mp4''" by (simp add: endswith_def)
  have h3: "preprocess_sample demo_env (sample_file ''/demo'' ?file) ''v'' = Inr ()"
    by (simp add: demo_env_def)
  have h4: "prepare_main_input demo_env (sample_file ''/demo'' ?file @ ''.wav'')
              (sample_file ''/demo'' ?file @ ''.npy'') = Inr ?sample"
    by (simp add: demo_env_def demo_sample_file)
  have h5: "collate_fn demo_env [?sample]
              = Inr ((''/demo/speaker1_clip7_base.wav'', ''/demo/speaker1_clip7_base.npy''), 3)"
    by (simp add: demo_env_def)
  have h6: "select_inputs (TEST_DEMO_MODE args)
              (''/demo/speaker1_clip7_base.wav'', ''/demo/speaker1_clip7_base.npy'') = Some ?inputs"
    if "TEST_DEMO_MODE args = ''AV''" for args :: "int args"
    using that by (simp add: select_inputs_def)
  have h7: "model_call demo_env ''m'' ?inputs = Inr ''posteriors''"
    by (simp add: demo_env_def)
  have g: "TEST_DEMO_MODE demo_args = ''AV''" by (simp add: demo_args_def)
  have s: "TEST_DEMO_MODE (demo_args\<lparr>TEST_DEMO_DECODING := ''search''\<rparr>) = ''AV''"
    by (simp add: demo_args_def)
  show ?thesis
    using decoder_arguments [OF h1 demo_file_names h3 h4 h5 h6 [OF g] h7,
                             where eos = 4 and tr = "[]" and lm = None and rows = "[]"
                               and space = 1]
          decoder_arguments [OF h1 demo_file_names h3 h4 h5 h6 [OF s] h7,
                             where eos = 4 and tr = "[]" and lm = "Some ''lm''"
                               and rows = "[]" and space = 1]
    by (simp add: Let_def demo_args_def demo_env_def demo_sample_file)
qed

end
